theory Spec2Isabelle
  imports Main
begin

section \<open>The scene model of \<open>src/project/assets/asset_godot_scene.ts\<close>\<close>

subsection \<open>JavaScript truthiness of the values the resolver tests\<close>

text \<open>
  The source tests optional strings and optional numbers with \<open>!x\<close>. An optional
  value is \<open>undefined\<close> (\<open>None\<close>) or a value; \<open>!x\<close> holds for \<open>undefined\<close>, for the
  empty string and for the number \<open>0\<close>. Numeric resource ids are integers.
\<close>

fun truthy_str :: "string option \<Rightarrow> bool" where
  "truthy_str None = False"
| "truthy_str (Some s) = (s \<noteq> [])"

fun truthy_num :: "int option \<Rightarrow> bool" where
  "truthy_num None = False"
| "truthy_num (Some n) = (n \<noteq> 0)"

subsection \<open>The parsed scene file (\<open>IGodotSceneFile\<close>)\<close>

text \<open>
  \<open>call_value\<close> is the shape of the \<open>instance\<close> and \<open>script\<close> attributes:
  \<open>{ args: [number], identifier: string }\<close>, for example \<open>ExtResource( 3 )\<close>; the
  field \<open>identifier\<close> is \<open>ident\<close> here.
\<close>

record call_value =
  args :: "int list"
  ident :: string

record ext_resource_section =
  sec_path :: string
  sec_res_type :: string
  sec_id :: int

record node_section =
  sec_name :: string
  sec_type :: "string option"
  sec_parent :: "string option"
  sec_groups :: "string list option"
  sec_instance :: "call_value option"

record node_props =
  dollar_section :: node_section
  script :: "call_value option"

record IGodotSceneFile =
  ext_resource :: "ext_resource_section list option"
  node :: "node_props list option"

text \<open>\<open>c?.args[0]\<close>: the first positional argument, \<open>undefined\<close> when there is none.\<close>

fun first_arg :: "call_value option \<Rightarrow> int option" where
  "first_arg None = None"
| "first_arg (Some c) = (case args c of [] \<Rightarrow> None | x # _ \<Rightarrow> Some x)"

subsection \<open>\<open>GodotNode\<close>\<close>

text \<open>
  The fields of the class. \<open>node_type\<close> is the private field \<open>_type\<close>. The back
  references \<open>scene\<close> and \<open>project\<close> are not stored: every operation that reads them
  takes the owning scene and the project as arguments.
\<close>

record GodotNode =
  name :: string
  node_type :: "string option"
  isRoot :: bool
  groups :: "string list"
  parent :: "string option"
  node_section :: node_section
  scriptExtResourceId :: "int option"

definition GodotNode_new :: "node_props \<Rightarrow> GodotNode" where
  "GodotNode_new props =
     \<lparr> name = sec_name (dollar_section props),
       node_type = sec_type (dollar_section props),
       isRoot = (if truthy_str (sec_parent (dollar_section props)) then False else True),
       groups = (case sec_groups (dollar_section props) of None \<Rightarrow> [] | Some g \<Rightarrow> g),
       parent = sec_parent (dollar_section props),
       node_section = dollar_section props,
       scriptExtResourceId = first_arg (script props) \<rparr>"

definition scenePath :: "GodotNode \<Rightarrow> string" where
  "scenePath n =
     (if \<not> truthy_str (parent n) then ''.''
      else if parent n = Some ''.'' then name n
      else (case parent n of None \<Rightarrow> [] | Some p \<Rightarrow> p) @ ''/'' @ name n)"

definition instanceId :: "GodotNode \<Rightarrow> int option" where
  "instanceId n =
     (let instanceId = first_arg (sec_instance (node_section n))
      in if \<not> truthy_num instanceId \<and> instanceId \<noteq> Some 0 then None else instanceId)"

definition isInstance :: "GodotNode \<Rightarrow> bool" where
  "isInstance n = truthy_num (instanceId n)"

definition isInstanceOverride :: "GodotNode \<Rightarrow> bool" where
  "isInstanceOverride n = (\<not> truthy_str (node_type n) \<and> \<not> isInstance n)"

subsection \<open>Resources, assets, scenes and the project\<close>

record ResourceTemp =
  res_resPath :: string
  res_fsPath :: string
  res_id :: int

text \<open>
  \<open>AssetSourceFile\<close> and \<open>AssetGlb\<close> are declared outside this file. The resolver reads
  their paths, the result of \<open>exportedTsClassName()\<close> and the result of the model
  asset's \<open>tsType()\<close>; these are fields here.
\<close>

record AssetSourceFile =
  sf_resPath :: string
  sf_fsPath :: string
  exportedTsClassName :: "string option"

record AssetGlb =
  glb_fsPath :: string
  glb_tsType :: string

record AssetGodotScene =
  scene_fsPath :: string
  scene_resPath :: string
  nodes :: "GodotNode list"
  resources :: "ResourceTemp list"
  rootNode :: "GodotNode option"

text \<open>
  The constructor of \<open>AssetGodotScene\<close>, from the result of \<open>parseGodotConfigFile\<close>.
  The two path translations of the project class are parameters. \<open>rootNode\<close> is
  \<open>nodes.find(node => !node.parent)\<close>, which is \<open>undefined\<close> when no node matches.
  The constructor makes no call of \<open>addError\<close>. The field \<open>name\<close> of the scene
  (\<open>path.basename\<close> of the file path) is read by no operation of this file and is
  left out.
\<close>

definition AssetGodotScene_new ::
  "(string \<Rightarrow> string) \<Rightarrow> (string \<Rightarrow> string) \<Rightarrow> string \<Rightarrow> IGodotSceneFile \<Rightarrow> AssetGodotScene" where
  "AssetGodotScene_new FsPathToResPath ResPathToFsPath fsPath sceneFile =
     (let ns = map GodotNode_new (case node sceneFile of None \<Rightarrow> [] | Some l \<Rightarrow> l)
      in \<lparr> scene_fsPath = fsPath,
           scene_resPath = FsPathToResPath fsPath,
           nodes = ns,
           resources =
             map (\<lambda>resource.
                    \<lparr> res_resPath = sec_path resource,
                      res_fsPath = ResPathToFsPath (sec_path resource),
                      res_id = sec_id resource \<rparr>)
                 (case ext_resource sceneFile of None \<Rightarrow> [] | Some l \<Rightarrow> l),
           rootNode = find (\<lambda>n. \<not> truthy_str (parent n)) ns \<rparr>)"

datatype asset =
    SourceFile AssetSourceFile
  | GodotScene AssetGodotScene
  | Glb AssetGlb
  | OtherAsset string

text \<open>
  \<open>TsGdProjectClass\<close> is declared outside this file. The resolver reads its field
  \<open>assets\<close> and the results of its accessors \<open>sourceFiles()\<close>, \<open>godotScenes()\<close> and
  \<open>godotGlbs()\<close>; the three results are fields here, with no assumption on how they
  relate to \<open>assets\<close>.
\<close>

record TsGdProjectClass =
  assets :: "asset list"
  sourceFiles :: "AssetSourceFile list"
  godotScenes :: "AssetGodotScene list"
  godotGlbs :: "AssetGlb list"

subsection \<open>Raised errors and the diagnostics sink\<close>

text \<open>
  The two \<open>throw new Error(...)\<close> of the file, with the values their messages
  interpolate, and the \<open>TypeError\<close> of reading a property of an \<open>undefined\<close>
  \<open>rootNode\<close>.
\<close>

datatype exn =
    CantFindScene int string
  | ResourceNotFound int string
  | TypeError

datatype ErrorName = InvalidFile | Ts2GdError

text \<open>
  The four messages passed to \<open>addError\<close>, with the values they interpolate:
  \<^item> \<open>InstanceOverrideType\<close>: "Error: should never try to get the type of an instance
    override. This is a ts2gd internal bug. Please report it on GitHub."
  \<^item> \<open>SceneRefersToMissing fsPath scenePath resPath\<close>: "Error: Your Godot scene fsPath
    refers to scenePath, but it doesn't exist. It may have been deleted from the
    project. the tstype was resPath"
  \<^item> \<open>NoRootSourceFile fsPath\<close>: "Failed to find root source file for fsPath"
  \<^item> \<open>NoClassName fsPath\<close>: "Failed to find classname for fsPath"

  The \<open>stack\<close> field of an error is the call stack of the run and is left out.
\<close>

datatype description =
    InstanceOverrideType
  | SceneRefersToMissing string string string
  | NoRootSourceFile string
  | NoClassName string

record TsGdError =
  err_description :: description
  error :: ErrorName
  location :: string

text \<open>
  Modelled from the spec: \<open>addError\<close> of \<open>src/errors\<close>, which is not part of this
  file. The diagnostics sink is a "process-wide append-only log of structured errors":
  \<open>addError\<close> appends its argument to the log.
\<close>

definition addError :: "TsGdError \<Rightarrow> TsGdError list \<Rightarrow> TsGdError list" where
  "addError e sink = sink @ [e]"

subsection \<open>The resolver\<close>

definition children :: "AssetGodotScene \<Rightarrow> GodotNode \<Rightarrow> GodotNode list" where
  "children scene n =
     (let path = scenePath n
      in filter (\<lambda>node. parent node = Some path \<and> \<not> isInstanceOverride node) (nodes scene))"

datatype instanced = InstScene AssetGodotScene | InstGlb AssetGlb

text \<open>
  \<open>GodotNode.instance()\<close>: \<open>Inl\<close> is the raised error, \<open>Inr None\<close> is the result
  \<open>undefined\<close>.
\<close>

definition node_instance ::
  "TsGdProjectClass \<Rightarrow> AssetGodotScene \<Rightarrow> GodotNode \<Rightarrow> exn + instanced option" where
  "node_instance project scene n =
     (case instanceId n of
        None \<Rightarrow> Inr None
      | Some i \<Rightarrow>
          (case find (\<lambda>res. res_id res = i) (resources scene) of
             None \<Rightarrow> Inl (CantFindScene i (scenePath n))
           | Some res \<Rightarrow>
               (case find (\<lambda>s. scene_fsPath s = res_fsPath res) (godotScenes project) of
                  Some matchingScene \<Rightarrow> Inr (Some (InstScene matchingScene))
                | None \<Rightarrow>
                    (case find (\<lambda>g. glb_fsPath g = res_fsPath res) (godotGlbs project) of
                       Some matchingGlb \<Rightarrow> Inr (Some (InstGlb matchingGlb))
                     | None \<Rightarrow> Inr None))))"

text \<open>
  The second half of \<open>getScript()\<close>, from \<open>if (!scriptId || !sceneContainingScript)\<close>
  on. \<open>sceneContainingScript\<close> is always a scene there (the owning scene or the
  instanced one). The error message names the owning scene \<open>this.scene\<close>.
\<close>

definition is_script_at :: "string \<Rightarrow> asset \<Rightarrow> bool" where
  "is_script_at p a = (case a of SourceFile sf \<Rightarrow> sf_resPath sf = p | _ \<Rightarrow> False)"

definition script_lookup ::
  "TsGdProjectClass \<Rightarrow> AssetGodotScene \<Rightarrow> int option \<Rightarrow> AssetGodotScene
     \<Rightarrow> exn + AssetSourceFile option" where
  "script_lookup project scene scriptId sceneContainingScript =
     (if \<not> truthy_num scriptId then Inr None
      else
        (case find (\<lambda>obj. Some (res_id obj) = scriptId) (resources sceneContainingScript) of
           None \<Rightarrow>
             Inl (ResourceNotFound (case scriptId of None \<Rightarrow> 0 | Some i \<Rightarrow> i) (scene_fsPath scene))
         | Some externalResource \<Rightarrow>
             (case find (is_script_at (res_resPath externalResource)) (assets project) of
                Some (SourceFile sf) \<Rightarrow> Inr (Some sf)
              | _ \<Rightarrow> Inr None)))"

definition getScript ::
  "TsGdProjectClass \<Rightarrow> AssetGodotScene \<Rightarrow> GodotNode \<Rightarrow> exn + AssetSourceFile option" where
  "getScript project scene n =
     (if \<not> truthy_num (scriptExtResourceId n) then
        (case node_instance project scene n of
           Inl e \<Rightarrow> Inl e
         | Inr (Some (InstScene inst)) \<Rightarrow>
             (case rootNode inst of
                None \<Rightarrow> Inl TypeError
              | Some r \<Rightarrow> script_lookup project scene (scriptExtResourceId r) inst)
         | Inr _ \<Rightarrow> script_lookup project scene (scriptExtResourceId n) scene)
      else script_lookup project scene (scriptExtResourceId n) scene)"

text \<open>
  The text of the template
  \<open>import('${rootSourceFile.fsPath.slice(0, -".ts".length)}').${className}\<close>.
\<close>

definition import_type :: "AssetSourceFile \<Rightarrow> string" where
  "import_type rootSourceFile =
     ''import('' @ [CHR 0x27] @ take (length (sf_fsPath rootSourceFile) - 3) (sf_fsPath rootSourceFile)
       @ [CHR 0x27] @ '').''
       @ (case exportedTsClassName rootSourceFile of None \<Rightarrow> ''undefined'' | Some c \<Rightarrow> c)"

text \<open>
  \<open>GodotNode.tsType()\<close> and \<open>AssetGodotScene.tsType()\<close> call each other through
  instanced scenes, and a scene that instances itself makes the source recurse without
  end. The first argument bounds the number of instanced scenes entered; \<open>None\<close> is
  "did not return within that bound". A result is the returned string or the raised
  error, paired with the sink after the call.
\<close>

type_synonym tsType_result = "((exn + string) \<times> TsGdError list) option"

fun node_tsType ::
  "nat \<Rightarrow> TsGdProjectClass \<Rightarrow> AssetGodotScene \<Rightarrow> GodotNode \<Rightarrow> TsGdError list \<Rightarrow> tsType_result"
and scene_tsType ::
  "nat \<Rightarrow> TsGdProjectClass \<Rightarrow> AssetGodotScene \<Rightarrow> TsGdError list \<Rightarrow> tsType_result" where
  "node_tsType fuel project scene n sink =
     (if truthy_str (node_type n) then
        Some (Inr (case node_type n of None \<Rightarrow> [] | Some t \<Rightarrow> t), sink)
      else if isInstanceOverride n then
        Some (Inr ''any'',
              addError \<lparr> err_description = InstanceOverrideType,
                         error = InvalidFile, location = name n \<rparr> sink)
      else
        (let missing = (\<lambda>sink'.
               Some (Inr ''any'',
                     addError \<lparr> err_description =
                                  SceneRefersToMissing (scene_fsPath scene) (scenePath n)
                                    (scene_resPath scene),
                                error = InvalidFile, location = name n \<rparr> sink'))
         in case node_instance project scene n of
              Inl e \<Rightarrow> Some (Inl e, sink)
            | Inr None \<Rightarrow> missing sink
            | Inr (Some (InstGlb g)) \<Rightarrow>
                (if glb_tsType g \<noteq> [] then Some (Inr (glb_tsType g), sink) else missing sink)
            | Inr (Some (InstScene inst)) \<Rightarrow>
                (case fuel of
                   0 \<Rightarrow> None
                 | Suc fuel' \<Rightarrow>
                     (case scene_tsType fuel' project inst sink of
                        None \<Rightarrow> None
                      | Some (Inl e, sink') \<Rightarrow> Some (Inl e, sink')
                      | Some (Inr instancedSceneType, sink') \<Rightarrow>
                          (if instancedSceneType \<noteq> [] then Some (Inr instancedSceneType, sink')
                           else missing sink')))))"
| "scene_tsType fuel project scene sink =
     (case rootNode scene of
        None \<Rightarrow> Some (Inl TypeError, sink)
      | Some r \<Rightarrow>
          (case getScript project scene r of
             Inl e \<Rightarrow> Some (Inl e, sink)
           | Inr (Some rootScript) \<Rightarrow>
               (case find (\<lambda>sf. sf_resPath sf = sf_resPath rootScript) (sourceFiles project) of
                  None \<Rightarrow>
                    Some (Inr ''any'',
                          addError \<lparr> err_description = NoRootSourceFile (sf_fsPath rootScript),
                                     error = Ts2GdError,
                                     location = sf_fsPath rootScript \<rparr> sink)
                | Some rootSourceFile \<Rightarrow>
                    (if \<not> truthy_str (exportedTsClassName rootSourceFile) then
                       Some (Inr ''any'',
                             addError \<lparr> err_description = NoClassName (sf_fsPath rootScript),
                                        error = Ts2GdError,
                                        location = sf_fsPath rootScript \<rparr> sink)
                     else Some (Inr (import_type rootSourceFile), sink)))
           | Inr None \<Rightarrow> node_tsType fuel project scene r sink))"

declare node_tsType.simps [simp del] scene_tsType.simps [simp del]

section \<open>The translation rule of \<open>src/parse_node/parse_this_keyword.ts\<close>\<close>

text \<open>
  The kinds of source AST node that the rules named in the specification read.
\<close>

datatype ts_node =
    ThisExpression
  | Identifier string
  | ConditionalExpression ts_node ts_node ts_node
  | ElementAccessExpression ts_node ts_node

text \<open>
  Modelled from the spec: \<open>ParseState\<close>, \<open>ParseNodeType\<close> and \<open>combine\<close> of
  \<open>src/parse_node\<close>, which is not part of this file. \<open>ParseState\<close> is the "current
  indentation depth, lexical scope/bindings visible at this point, the enclosing
  class/function context, and any pending diagnostics context". A \<open>ParseNodeType\<close> is
  "text plus any state updates such as newly introduced bindings that must propagate
  to siblings translated afterward". \<open>combine\<close> "takes the parent node, the ordered
  list of child nodes to recurse into, the current ParseState, and a template function
  from child-output strings to final text; it performs the recursion and applies the
  template". The translation of a child node is the parameter \<open>parseNode\<close>.
\<close>

record ParseState =
  indent :: nat
  scope :: "string list"
  enclosing :: "string option"
  diag_location :: string

record ParseNodeType =
  content :: string
  bindings :: "string list"

fun parse_children ::
  "(ts_node \<Rightarrow> ParseState \<Rightarrow> ParseNodeType) \<Rightarrow> ts_node list \<Rightarrow> ParseState \<Rightarrow> ParseNodeType list" where
  "parse_children parseNode [] props = []"
| "parse_children parseNode (c # cs) props =
     (let r = parseNode c props
      in r # parse_children parseNode cs (props\<lparr> scope := scope props @ bindings r \<rparr>))"

definition combine ::
  "(ts_node \<Rightarrow> ParseState \<Rightarrow> ParseNodeType) \<Rightarrow> ts_node \<Rightarrow> ts_node list \<Rightarrow> ParseState
     \<Rightarrow> (string list \<Rightarrow> string) \<Rightarrow> ParseNodeType" where
  "combine parseNode parent_node child_nodes props parsedStrings =
     (let parsed = parse_children parseNode child_nodes props
      in \<lparr> content = parsedStrings (map content parsed),
           bindings = concat (map bindings parsed) \<rparr>)"

text \<open>The rule itself, as the source has it.\<close>

definition parseThisKeyword ::
  "(ts_node \<Rightarrow> ParseState \<Rightarrow> ParseNodeType) \<Rightarrow> ts_node \<Rightarrow> ParseState \<Rightarrow> ParseNodeType" where
  "parseThisKeyword parseNode n props = combine parseNode n [] props (\<lambda>_. ''self'')"

section \<open>A project used to run the definitions\<close>

text \<open>
  A project rooted at \<open>/g\<close>: the virtual path \<open>res://x\<close> is the file \<open>/g/x\<close>.
\<close>

definition ex_FsPathToResPath :: "string \<Rightarrow> string" where
  "ex_FsPathToResPath p = ''res:/'' @ drop 2 p"

definition ex_ResPathToFsPath :: "string \<Rightarrow> string" where
  "ex_ResPathToFsPath p = ''/g'' @ drop 5 p"

definition ext_res :: "string \<Rightarrow> string \<Rightarrow> int \<Rightarrow> ext_resource_section" where
  "ext_res p t i = \<lparr> sec_path = p, sec_res_type = t, sec_id = i \<rparr>"

definition ExtResource :: "int \<Rightarrow> call_value option" where
  "ExtResource i = Some \<lparr> args = [i], ident = ''ExtResource'' \<rparr>"

definition node_decl ::
  "string \<Rightarrow> string option \<Rightarrow> string option \<Rightarrow> call_value option \<Rightarrow> call_value option \<Rightarrow> node_props" where
  "node_decl nm ty par inst scr =
     \<lparr> dollar_section = \<lparr> sec_name = nm, sec_type = ty, sec_parent = par,
                           sec_groups = None, sec_instance = inst \<rparr>,
       script = scr \<rparr>"

definition ex_Enemy_ts :: AssetSourceFile where
  "ex_Enemy_ts = \<lparr> sf_resPath = ''res://Enemy.ts'', sf_fsPath = ''/g/Enemy.ts'',
                   exportedTsClassName = Some ''Enemy'' \<rparr>"

text \<open>\<open>C.tscn\<close>: a root node with a declared type and the script \<open>Enemy.ts\<close>.\<close>

definition ex_C_root :: node_props where
  "ex_C_root = node_decl ''Enemy'' (Some ''KinematicBody2D'') None None (ExtResource 1)"

definition ex_C :: AssetGodotScene where
  "ex_C = AssetGodotScene_new ex_FsPathToResPath ex_ResPathToFsPath ''/g/C.tscn''
            \<lparr> ext_resource = Some [ext_res ''res://Enemy.ts'' ''Script'' 1],
              node = Some [ex_C_root] \<rparr>"

text \<open>\<open>B.tscn\<close>: a root node that instances \<open>C.tscn\<close> and has no script.\<close>

definition ex_B_root :: node_props where
  "ex_B_root = node_decl ''B'' None None (ExtResource 1) None"

definition ex_B :: AssetGodotScene where
  "ex_B = AssetGodotScene_new ex_FsPathToResPath ex_ResPathToFsPath ''/g/B.tscn''
            \<lparr> ext_resource = Some [ext_res ''res://C.tscn'' ''PackedScene'' 1],
              node = Some [ex_B_root] \<rparr>"

text \<open>
  \<open>A.tscn\<close>: the root instances \<open>B.tscn\<close>. Below it: a typed node, a node with
  neither type nor instance, a node instancing a scene that is in the resource table
  and not in the project, a node instancing resource id \<open>0\<close>, a typed node whose
  script is in the resource table and not in the project, and two nodes whose ids are
  not in the resource table.
\<close>

definition ex_A_root :: node_props where
  "ex_A_root = node_decl ''A'' None None (ExtResource 1) None"

definition ex_Sprite :: node_props where
  "ex_Sprite = node_decl ''Sprite'' (Some ''Sprite'') (Some ''.'') None None"

definition ex_Arm :: node_props where
  "ex_Arm = node_decl ''Arm'' None (Some ''.'') None None"

definition ex_Gone :: node_props where
  "ex_Gone = node_decl ''Gone'' None (Some ''.'') (ExtResource 2) None"

definition ex_Zero :: node_props where
  "ex_Zero = node_decl ''Zero'' None (Some ''.'') (ExtResource 0) None"

definition ex_Player :: node_props where
  "ex_Player = node_decl ''Player'' (Some ''Node2D'') (Some ''.'') None (ExtResource 3)"

definition ex_DanglingInstance :: node_props where
  "ex_DanglingInstance = node_decl ''DanglingInstance'' None (Some ''.'') (ExtResource 9) None"

definition ex_DanglingScript :: node_props where
  "ex_DanglingScript = node_decl ''DanglingScript'' (Some ''Node'') (Some ''.'') None (ExtResource 8)"

definition ex_A_file :: IGodotSceneFile where
  "ex_A_file =
     \<lparr> ext_resource = Some [ext_res ''res://C.tscn'' ''PackedScene'' 0,
                             ext_res ''res://B.tscn'' ''PackedScene'' 1,
                             ext_res ''res://Gone.tscn'' ''PackedScene'' 2,
                             ext_res ''res://Player.ts'' ''Script'' 3],
       node = Some [ex_A_root, ex_Sprite, ex_Arm, ex_Gone, ex_Zero, ex_Player,
                    ex_DanglingInstance, ex_DanglingScript] \<rparr>"

definition ex_A :: AssetGodotScene where
  "ex_A = AssetGodotScene_new ex_FsPathToResPath ex_ResPathToFsPath ''/g/A.tscn'' ex_A_file"

definition ex_project :: TsGdProjectClass where
  "ex_project = \<lparr> assets = [OtherAsset ''/g/icon.png'', SourceFile ex_Enemy_ts,
                             GodotScene ex_A, GodotScene ex_B, GodotScene ex_C],
                   sourceFiles = [ex_Enemy_ts],
                   godotScenes = [ex_A, ex_B, ex_C],
                   godotGlbs = [] \<rparr>"

text \<open>
  \<open>D.tscn\<close>: a typed root whose script \<open>Player.ts\<close> is in the resource table and not
  in the project.
\<close>

definition ex_D_root :: node_props where
  "ex_D_root = node_decl ''Player'' (Some ''Node2D'') None None (ExtResource 1)"

definition ex_D :: AssetGodotScene where
  "ex_D = AssetGodotScene_new ex_FsPathToResPath ex_ResPathToFsPath ''/g/D.tscn''
            \<lparr> ext_resource = Some [ext_res ''res://Player.ts'' ''Script'' 1],
              node = Some [ex_D_root] \<rparr>"









text \<open>Two scene files that break the one-root rule.\<close>

definition ex_two_roots :: IGodotSceneFile where
  "ex_two_roots = \<lparr> ext_resource = None,
                    node = Some [node_decl ''First'' (Some ''Node'') None None None,
                                 node_decl ''Second'' (Some ''Node'') None None None] \<rparr>"

definition ex_no_root :: IGodotSceneFile where
  "ex_no_root = \<lparr> ext_resource = None,
                  node = Some [node_decl ''Lost'' (Some ''Node'') (Some ''.'') None None] \<rparr>"

section \<open>Properties of the resolver\<close>

subsection \<open>Facts about the constructors and the lookups\<close>

text \<open>\<open>find\<close> returns the first element of the filtered list.\<close>

lemma find_first_of_filter:
  "find P xs = (case filter P xs of [] \<Rightarrow> None | x # _ \<Rightarrow> Some x)"
  by (induction xs) simp_all

lemma GodotNode_new_parent: "parent (GodotNode_new q) = sec_parent (dollar_section q)"
  by (simp add: GodotNode_new_def)

lemma GodotNode_new_isRoot:
  "isRoot (GodotNode_new q) = (\<not> truthy_str (sec_parent (dollar_section q)))"
  by (simp add: GodotNode_new_def)

lemma filter_GodotNode_new:
  "filter isRoot (map GodotNode_new ps) =
     map GodotNode_new (filter (\<lambda>q. \<not> truthy_str (sec_parent (dollar_section q))) ps)"
  by (induction ps) (simp_all add: GodotNode_new_isRoot)

lemma filter_parent_GodotNode_new:
  "filter (\<lambda>n. \<not> truthy_str (parent n)) (map GodotNode_new ps) =
     map GodotNode_new (filter (\<lambda>q. \<not> truthy_str (sec_parent (dollar_section q))) ps)"
  by (induction ps) (simp_all add: GodotNode_new_parent)

subsection \<open>Override classification\<close>

text \<open>
  C1 (as amended). For every scene node whose instance reference does not carry the
  id \<open>0\<close>, \<open>isInstanceOverride\<close> is true if and only if the declared type is absent
  (undefined or the empty string) and the node carries no instance id. The test reads
  the instance id, not the result of \<open>instance()\<close>: a node with a type and no instance
  yields false, a node with no type and a non-zero instance id yields false, a node
  with neither yields true.
\<close>

theorem isInstanceOverride_iff_no_type_no_instance_id:
  "instanceId n \<noteq> Some 0 \<Longrightarrow>
     isInstanceOverride n = (\<not> truthy_str (node_type n) \<and> instanceId n = None)"
  by (cases "instanceId n") (simp_all add: isInstanceOverride_def isInstance_def)

text \<open>The three fixtures of C1: type and no instance, no type and instance, neither.\<close>

theorem isInstanceOverride_iff_witness:
  "instanceId (GodotNode_new ex_Sprite) \<noteq> Some 0
   \<and> instanceId (GodotNode_new ex_A_root) \<noteq> Some 0
   \<and> instanceId (GodotNode_new ex_Arm) \<noteq> Some 0
   \<and> isInstanceOverride (GodotNode_new ex_Sprite) = False
   \<and> isInstanceOverride (GodotNode_new ex_A_root) = False
   \<and> isInstanceOverride (GodotNode_new ex_Arm) = True"
proof -
  have s: "instanceId (GodotNode_new ex_Sprite) \<noteq> Some 0" by code_simp
  have a: "instanceId (GodotNode_new ex_A_root) \<noteq> Some 0" by code_simp
  have r: "instanceId (GodotNode_new ex_Arm) \<noteq> Some 0" by code_simp
  have ts: "truthy_str (node_type (GodotNode_new ex_Sprite))" by code_simp
  have ia: "instanceId (GodotNode_new ex_A_root) \<noteq> None" by code_simp
  have tr: "\<not> truthy_str (node_type (GodotNode_new ex_Arm))" by code_simp
  have ir: "instanceId (GodotNode_new ex_Arm) = None" by code_simp
  show ?thesis
    using s a r ts ia tr ir
      isInstanceOverride_iff_no_type_no_instance_id [OF s]
      isInstanceOverride_iff_no_type_no_instance_id [OF a]
      isInstanceOverride_iff_no_type_no_instance_id [OF r]
    by simp
qed

text \<open>
  C1 as stated fails: the node \<open>Gone\<close> of \<open>A.tscn\<close> has no declared type and its
  instance id is in the resource table, but the referenced scene is not in the
  project. \<open>instance()\<close> returns nothing, and the node is not an override.
\<close>

theorem isInstanceOverride_unresolved_instance_counterexample:
  "\<not> (isInstanceOverride (GodotNode_new ex_Gone) =
        (node_type (GodotNode_new ex_Gone) = None
         \<and> node_instance ex_project ex_A (GodotNode_new ex_Gone) = Inr None))"
  by code_simp

text \<open>
  C2. A node whose instance reference carries the id \<open>0\<close>: \<open>instanceId\<close> returns
  \<open>0\<close> and \<open>instance()\<close> resolves the scene, but \<open>isInstance\<close> is \<open>!!instanceId()\<close>,
  which is false for \<open>0\<close>. The node is classified as an override and is left out of
  its parent's children.
\<close>

theorem instance_id_zero_is_override:
  "instanceId (GodotNode_new ex_Zero) = Some 0
   \<and> node_instance ex_project ex_A (GodotNode_new ex_Zero) = Inr (Some (InstScene ex_C))
   \<and> isInstance (GodotNode_new ex_Zero) = False
   \<and> isInstanceOverride (GodotNode_new ex_Zero) = True
   \<and> GodotNode_new ex_Zero \<notin> set (children ex_A (GodotNode_new ex_A_root))"
  by code_simp

subsection \<open>Children\<close>

text \<open>
  C8. For every scene node \<open>n\<close>, \<open>children\<close> is the list of the nodes of the owning
  scene, in scene order, whose parent path equals the scene path of \<open>n\<close> and that are
  not instance overrides; the set of override nodes is disjoint from the union of all
  results of \<open>children\<close>.
\<close>

theorem children_filter_excludes_overrides:
  "children scene n =
     filter (\<lambda>m. parent m = Some (scenePath n) \<and> \<not> isInstanceOverride m) (nodes scene)
   \<and> {m. isInstanceOverride m} \<inter> (\<Union>k. set (children scene k)) = {}"
  by (auto simp: children_def)

theorem children_filter_excludes_overrides_witness:
  "map name (children ex_A (GodotNode_new ex_A_root)) =
     [''Sprite'', ''Gone'', ''Player'', ''DanglingInstance'', ''DanglingScript'']
   \<and> isInstanceOverride (GodotNode_new ex_Arm)
   \<and> GodotNode_new ex_Arm \<notin> set (children ex_A (GodotNode_new ex_A_root))"
proof -
  have ov: "isInstanceOverride (GodotNode_new ex_Arm)" by code_simp
  have names:
    "map name (filter (\<lambda>m. parent m = Some (scenePath (GodotNode_new ex_A_root))
                            \<and> \<not> isInstanceOverride m) (nodes ex_A)) =
       [''Sprite'', ''Gone'', ''Player'', ''DanglingInstance'', ''DanglingScript'']"
    by code_simp
  from children_filter_excludes_overrides [of ex_A "GodotNode_new ex_A_root"]
  have c: "children ex_A (GodotNode_new ex_A_root) =
             filter (\<lambda>m. parent m = Some (scenePath (GodotNode_new ex_A_root))
                         \<and> \<not> isInstanceOverride m) (nodes ex_A)"
    and d: "{m. isInstanceOverride m} \<inter> (\<Union>k. set (children ex_A k)) = {}"
    by blast+
  from d ov have "GodotNode_new ex_Arm \<notin> set (children ex_A (GodotNode_new ex_A_root))"
    by blast
  with ov names c show ?thesis by simp
qed

subsection \<open>The type of a node\<close>

text \<open>
  C9. For every node classified as an instance override, \<open>tsType\<close> appends the
  internal-bug diagnostic to the sink and returns \<open>"any"\<close>, raising nothing, whatever
  the bound on instancing depth; for every node with a declared type (a non-empty
  string), \<open>tsType\<close> returns that type and leaves the sink as it was.
\<close>

theorem tsType_override_and_declared:
  "(isInstanceOverride n \<longrightarrow>
      node_tsType fuel project scene n sink =
        Some (Inr ''any'',
              sink @ [\<lparr> err_description = InstanceOverrideType, error = InvalidFile,
                        location = name n \<rparr>]))
   \<and> (\<forall>t. node_type n = Some t \<and> t \<noteq> [] \<longrightarrow>
        node_tsType fuel project scene n sink = Some (Inr t, sink))"
  by (auto simp: node_tsType.simps isInstanceOverride_def addError_def)

theorem tsType_override_and_declared_witness:
  "isInstanceOverride (GodotNode_new ex_Arm)
   \<and> node_tsType 0 ex_project ex_A (GodotNode_new ex_Arm) [] =
        Some (Inr ''any'', [\<lparr> err_description = InstanceOverrideType, error = InvalidFile,
                               location = ''Arm'' \<rparr>])
   \<and> node_type (GodotNode_new ex_Sprite) = Some ''Sprite''
   \<and> node_tsType 0 ex_project ex_A (GodotNode_new ex_Sprite) [] = Some (Inr ''Sprite'', [])"
proof -
  have ov: "isInstanceOverride (GodotNode_new ex_Arm)" by code_simp
  have nm: "name (GodotNode_new ex_Arm) = ''Arm''" by code_simp
  have ty: "node_type (GodotNode_new ex_Sprite) = Some ''Sprite''" by code_simp
  show ?thesis
    using ov nm ty
      tsType_override_and_declared [of "GodotNode_new ex_Arm" 0 ex_project ex_A "[]"]
      tsType_override_and_declared [of "GodotNode_new ex_Sprite" 0 ex_project ex_A "[]"]
    by simp
qed

subsection \<open>Dangling ids and missing assets\<close>

text \<open>
  C3 (as amended). For every scene node: an instance id that is absent from the owning
  scene's resource table makes \<open>instance()\<close> raise; a non-zero script id that is
  absent from the table makes \<open>getScript()\<close> raise. When a node without a declared
  type carries a non-zero instance id that is in the table while no scene and no model
  asset of the project has the referenced path, \<open>tsType()\<close> appends one diagnostic to
  the sink and returns \<open>"any"\<close>, raising nothing, whatever the bound on instancing
  depth. When a non-zero script id is in the table while no source file of the
  project has the referenced path, \<open>getScript()\<close> returns nothing and raises nothing;
  it has no access to the sink.
\<close>

theorem dangling_id_raises_missing_asset_degrades:
  "(\<forall>i. instanceId n = Some i \<and> find (\<lambda>res. res_id res = i) (resources scene) = None \<longrightarrow>
        node_instance project scene n = Inl (CantFindScene i (scenePath n)))
   \<and> (\<forall>s. scriptExtResourceId n = Some s \<and> s \<noteq> 0
            \<and> find (\<lambda>res. res_id res = s) (resources scene) = None \<longrightarrow>
        getScript project scene n = Inl (ResourceNotFound s (scene_fsPath scene)))
   \<and> (\<forall>i res. \<not> truthy_str (node_type n) \<and> instanceId n = Some i \<and> i \<noteq> 0
            \<and> find (\<lambda>res. res_id res = i) (resources scene) = Some res
            \<and> find (\<lambda>s. scene_fsPath s = res_fsPath res) (godotScenes project) = None
            \<and> find (\<lambda>g. glb_fsPath g = res_fsPath res) (godotGlbs project) = None \<longrightarrow>
        node_tsType fuel project scene n sink =
          Some (Inr ''any'',
                sink @ [\<lparr> err_description =
                            SceneRefersToMissing (scene_fsPath scene) (scenePath n)
                              (scene_resPath scene),
                          error = InvalidFile, location = name n \<rparr>]))
   \<and> (\<forall>s res. scriptExtResourceId n = Some s \<and> s \<noteq> 0
            \<and> find (\<lambda>res. res_id res = s) (resources scene) = Some res
            \<and> find (is_script_at (res_resPath res)) (assets project) = None \<longrightarrow>
        getScript project scene n = Inr None)"
proof (intro conjI allI impI)
  fix i
  assume "instanceId n = Some i \<and> find (\<lambda>res. res_id res = i) (resources scene) = None"
  then show "node_instance project scene n = Inl (CantFindScene i (scenePath n))"
    by (simp add: node_instance_def)
next
  fix s
  assume "scriptExtResourceId n = Some s \<and> s \<noteq> 0
            \<and> find (\<lambda>res. res_id res = s) (resources scene) = None"
  then show "getScript project scene n = Inl (ResourceNotFound s (scene_fsPath scene))"
    by (simp add: getScript_def script_lookup_def)
next
  fix i res
  assume a: "\<not> truthy_str (node_type n) \<and> instanceId n = Some i \<and> i \<noteq> 0
            \<and> find (\<lambda>res. res_id res = i) (resources scene) = Some res
            \<and> find (\<lambda>s. scene_fsPath s = res_fsPath res) (godotScenes project) = None
            \<and> find (\<lambda>g. glb_fsPath g = res_fsPath res) (godotGlbs project) = None"
  then have inst: "node_instance project scene n = Inr None"
    by (simp add: node_instance_def)
  from a have "\<not> isInstanceOverride n"
    by (simp add: isInstanceOverride_def isInstance_def)
  with a inst show "node_tsType fuel project scene n sink =
          Some (Inr ''any'',
                sink @ [\<lparr> err_description =
                            SceneRefersToMissing (scene_fsPath scene) (scenePath n)
                              (scene_resPath scene),
                          error = InvalidFile, location = name n \<rparr>])"
    by (simp add: node_tsType.simps addError_def)
next
  fix s res
  assume "scriptExtResourceId n = Some s \<and> s \<noteq> 0
            \<and> find (\<lambda>res. res_id res = s) (resources scene) = Some res
            \<and> find (is_script_at (res_resPath res)) (assets project) = None"
  then show "getScript project scene n = Inr None"
    by (simp add: getScript_def script_lookup_def)
qed

theorem dangling_id_raises_missing_asset_degrades_witness:
  "node_instance ex_project ex_A (GodotNode_new ex_DanglingInstance) =
     Inl (CantFindScene 9 ''DanglingInstance'')
   \<and> getScript ex_project ex_A (GodotNode_new ex_DanglingScript) =
       Inl (ResourceNotFound 8 ''/g/A.tscn'')
   \<and> node_tsType 0 ex_project ex_A (GodotNode_new ex_Gone) [] =
       Some (Inr ''any'',
             [\<lparr> err_description = SceneRefersToMissing ''/g/A.tscn'' ''Gone'' ''res://A.tscn'',
                 error = InvalidFile, location = ''Gone'' \<rparr>])
   \<and> getScript ex_project ex_A (GodotNode_new ex_Player) = Inr None"
proof -
  have a: "instanceId (GodotNode_new ex_DanglingInstance) = Some 9
           \<and> find (\<lambda>res. res_id res = 9) (resources ex_A) = None"
    by code_simp
  have b: "scriptExtResourceId (GodotNode_new ex_DanglingScript) = Some 8 \<and> (8::int) \<noteq> 0
           \<and> find (\<lambda>res. res_id res = 8) (resources ex_A) = None"
    by code_simp
  have c: "\<not> truthy_str (node_type (GodotNode_new ex_Gone))
           \<and> instanceId (GodotNode_new ex_Gone) = Some 2 \<and> (2::int) \<noteq> 0
           \<and> find (\<lambda>res. res_id res = 2) (resources ex_A) =
               Some \<lparr> res_resPath = ''res://Gone.tscn'', res_fsPath = ''/g/Gone.tscn'', res_id = 2 \<rparr>
           \<and> find (\<lambda>s. scene_fsPath s = res_fsPath \<lparr> res_resPath = ''res://Gone.tscn'', res_fsPath = ''/g/Gone.tscn'', res_id = 2 \<rparr>)
                (godotScenes ex_project) = None
           \<and> find (\<lambda>g. glb_fsPath g = res_fsPath \<lparr> res_resPath = ''res://Gone.tscn'', res_fsPath = ''/g/Gone.tscn'', res_id = 2 \<rparr>)
                (godotGlbs ex_project) = None"
    by code_simp
  have d: "scriptExtResourceId (GodotNode_new ex_Player) = Some 3 \<and> (3::int) \<noteq> 0
           \<and> find (\<lambda>res. res_id res = 3) (resources ex_A) =
               Some \<lparr> res_resPath = ''res://Player.ts'', res_fsPath = ''/g/Player.ts'', res_id = 3 \<rparr>
           \<and> find (is_script_at (res_resPath \<lparr> res_resPath = ''res://Player.ts'', res_fsPath = ''/g/Player.ts'', res_id = 3 \<rparr>))
                (assets ex_project) = None"
    by code_simp
  have e: "scenePath (GodotNode_new ex_DanglingInstance) = ''DanglingInstance''
           \<and> scene_fsPath ex_A = ''/g/A.tscn'' \<and> scene_resPath ex_A = ''res://A.tscn''
           \<and> scenePath (GodotNode_new ex_Gone) = ''Gone'' \<and> name (GodotNode_new ex_Gone) = ''Gone''"
    by code_simp
  have 1: "node_instance ex_project ex_A (GodotNode_new ex_DanglingInstance) =
             Inl (CantFindScene 9 (scenePath (GodotNode_new ex_DanglingInstance)))"
    using a dangling_id_raises_missing_asset_degrades
            [of "GodotNode_new ex_DanglingInstance" ex_A ex_project 0 "[]"]
    by blast
  have 2: "getScript ex_project ex_A (GodotNode_new ex_DanglingScript) =
             Inl (ResourceNotFound 8 (scene_fsPath ex_A))"
    using b dangling_id_raises_missing_asset_degrades
            [of "GodotNode_new ex_DanglingScript" ex_A ex_project 0 "[]"]
    by blast
  have 3: "node_tsType 0 ex_project ex_A (GodotNode_new ex_Gone) [] =
             Some (Inr ''any'',
                   [] @ [\<lparr> err_description =
                             SceneRefersToMissing (scene_fsPath ex_A) (scenePath (GodotNode_new ex_Gone))
                               (scene_resPath ex_A),
                           error = InvalidFile, location = name (GodotNode_new ex_Gone) \<rparr>])"
    using c dangling_id_raises_missing_asset_degrades
            [of "GodotNode_new ex_Gone" ex_A ex_project 0 "[]"]
    by blast
  have 4: "getScript ex_project ex_A (GodotNode_new ex_Player) = Inr None"
    using d dangling_id_raises_missing_asset_degrades
            [of "GodotNode_new ex_Player" ex_A ex_project 0 "[]"]
    by blast
  from 1 2 3 4 e show ?thesis by simp
qed

text \<open>
  C3 as stated fails on the script path: the node \<open>Player\<close> of \<open>A.tscn\<close> has a script
  id that is in the resource table, and no asset of the project has the referenced
  path. \<open>getScript()\<close> returns nothing, and the type of the node is its declared type,
  with an empty sink: no diagnostic, no \<open>"any"\<close>.
\<close>

theorem missing_script_file_counterexample:
  "scriptExtResourceId (GodotNode_new ex_Player) = Some 3
   \<and> find (\<lambda>res. res_id res = 3) (resources ex_A) =
       Some \<lparr> res_resPath = ''res://Player.ts'', res_fsPath = ''/g/Player.ts'', res_id = 3 \<rparr>
   \<and> find (is_script_at ''res://Player.ts'') (assets ex_project) = None
   \<and> getScript ex_project ex_A (GodotNode_new ex_Player) = Inr None
   \<and> node_tsType 0 ex_project ex_A (GodotNode_new ex_Player) [] = Some (Inr ''Node2D'', [])"
  by code_simp

subsection \<open>Root discovery\<close>

text \<open>
  C4 (as amended). For every scene constructed from a parsed config tree, the nodes
  with \<open>isRoot = true\<close> are the nodes built from the sections lacking a parent
  attribute (or with an empty one), in file order, and \<open>rootNode\<close> is the first of
  them: absent when there is none, the single one when there is exactly one, and the
  first-found when there are several. The constructor reports nothing.
\<close>

theorem root_discovery_first_found:
  assumes "scene = AssetGodotScene_new FsPathToResPath ResPathToFsPath fsPath sceneFile"
    and "roots = filter (\<lambda>q. \<not> truthy_str (sec_parent (dollar_section q)))
                   (case node sceneFile of None \<Rightarrow> [] | Some l \<Rightarrow> l)"
  shows "filter isRoot (nodes scene) = map GodotNode_new roots
       \<and> rootNode scene = (case roots of [] \<Rightarrow> None | q # _ \<Rightarrow> Some (GodotNode_new q))"
proof -
  have n: "nodes scene = map GodotNode_new (case node sceneFile of None \<Rightarrow> [] | Some l \<Rightarrow> l)"
    using assms(1) by (simp add: AssetGodotScene_new_def Let_def)
  have r: "rootNode scene = find (\<lambda>n. \<not> truthy_str (parent n)) (nodes scene)"
    using assms(1) by (simp add: AssetGodotScene_new_def Let_def)
  have "filter isRoot (nodes scene) = map GodotNode_new roots"
    using n assms(2) by (simp add: filter_GodotNode_new)
  moreover have "rootNode scene = (case roots of [] \<Rightarrow> None | q # _ \<Rightarrow> Some (GodotNode_new q))"
    unfolding r find_first_of_filter n filter_parent_GodotNode_new
    using assms(2) by (simp split: list.splits)
  ultimately show ?thesis by simp
qed

text \<open>One root (\<open>C.tscn\<close>) and no root.\<close>

theorem root_discovery_first_found_witness:
  "filter isRoot (nodes ex_C) = [GodotNode_new ex_C_root]
   \<and> rootNode ex_C = Some (GodotNode_new ex_C_root)
   \<and> rootNode (AssetGodotScene_new ex_FsPathToResPath ex_ResPathToFsPath ''/g/N.tscn'' ex_no_root)
       = None"
proof -
  have r: "[ex_C_root] =
             filter (\<lambda>q. \<not> truthy_str (sec_parent (dollar_section q)))
               (case node \<lparr> ext_resource = Some [ext_res ''res://Enemy.ts'' ''Script'' 1],
                             node = Some [ex_C_root] \<rparr> of None \<Rightarrow> [] | Some l \<Rightarrow> l)"
    by code_simp
  have n: "[] =
             filter (\<lambda>q. \<not> truthy_str (sec_parent (dollar_section q)))
               (case node ex_no_root of None \<Rightarrow> [] | Some l \<Rightarrow> l)"
    by code_simp
  from root_discovery_first_found [OF ex_C_def r]
       root_discovery_first_found [OF refl n, of ex_FsPathToResPath ex_ResPathToFsPath "''/g/N.tscn''"]
  show ?thesis by simp
qed

text \<open>
  C4 as stated fails: a file with two sections lacking a parent attribute gives a
  scene whose \<open>rootNode\<close> is the first of them, not a root-less scene.
\<close>

theorem two_roots_first_found_counterexample:
  "length (filter isRoot
      (nodes (AssetGodotScene_new ex_FsPathToResPath ex_ResPathToFsPath ''/g/T.tscn'' ex_two_roots))) = 2
   \<and> rootNode (AssetGodotScene_new ex_FsPathToResPath ex_ResPathToFsPath ''/g/T.tscn'' ex_two_roots)
       = Some (GodotNode_new (node_decl ''First'' (Some ''Node'') None None None))"
  by code_simp

subsection \<open>The type of a scene\<close>

text \<open>
  C5 (as amended). For every scene that has a root node: when \<open>getScript()\<close> of the
  root returns nothing, the scene-level \<open>tsType()\<close> is exactly the root node's
  \<open>tsType()\<close>, result and sink, and adds no diagnostic of its own; when it returns a
  script whose resource path is the path of a source file of the project with a
  non-empty exported class name, \<open>tsType()\<close> returns \<open>import('P').C\<close>, where \<open>P\<close> is
  that file's path without its last three characters and \<open>C\<close> the exported class
  name, and leaves the sink as it was.
\<close>

theorem scene_tsType_of_root_script:
  assumes "rootNode scene = Some r"
  shows "(getScript project scene r = Inr None \<longrightarrow>
            scene_tsType fuel project scene sink = node_tsType fuel project scene r sink)
       \<and> (\<forall>rootScript sf c.
            getScript project scene r = Inr (Some rootScript)
            \<and> find (\<lambda>x. sf_resPath x = sf_resPath rootScript) (sourceFiles project) = Some sf
            \<and> exportedTsClassName sf = Some c \<and> c \<noteq> [] \<longrightarrow>
            scene_tsType fuel project scene sink =
              Some (Inr (''import('' @ [CHR 0x27]
                          @ take (length (sf_fsPath sf) - 3) (sf_fsPath sf)
                          @ [CHR 0x27] @ '').'' @ c), sink))"
  using assms by (simp add: scene_tsType.simps import_type_def)

theorem scene_tsType_of_root_script_witness:
  "rootNode ex_A = Some (GodotNode_new ex_A_root)
   \<and> getScript ex_project ex_A (GodotNode_new ex_A_root) = Inr None
   \<and> scene_tsType 1 ex_project ex_A [] = node_tsType 1 ex_project ex_A (GodotNode_new ex_A_root) []
   \<and> rootNode ex_C = Some (GodotNode_new ex_C_root)
   \<and> getScript ex_project ex_C (GodotNode_new ex_C_root) = Inr (Some ex_Enemy_ts)
   \<and> scene_tsType 0 ex_project ex_C [] =
       Some (Inr (''import('' @ [CHR 0x27] @ ''/g/Enemy'' @ [CHR 0x27] @ '').Enemy''), [])"
proof -
  have ra: "rootNode ex_A = Some (GodotNode_new ex_A_root)" by code_simp
  have ga: "getScript ex_project ex_A (GodotNode_new ex_A_root) = Inr None" by code_simp
  have rc: "rootNode ex_C = Some (GodotNode_new ex_C_root)" by code_simp
  have gc: "getScript ex_project ex_C (GodotNode_new ex_C_root) = Inr (Some ex_Enemy_ts)
            \<and> find (\<lambda>x. sf_resPath x = sf_resPath ex_Enemy_ts) (sourceFiles ex_project)
                = Some ex_Enemy_ts
            \<and> exportedTsClassName ex_Enemy_ts = Some ''Enemy'' \<and> ''Enemy'' \<noteq> []"
    by code_simp
  have p: "take (length (sf_fsPath ex_Enemy_ts) - 3) (sf_fsPath ex_Enemy_ts) = ''/g/Enemy''"
    by code_simp
  have 1: "scene_tsType 1 ex_project ex_A [] = node_tsType 1 ex_project ex_A (GodotNode_new ex_A_root) []"
    using ga scene_tsType_of_root_script [OF ra, of ex_project 1 "[]"] by blast
  have 2: "scene_tsType 0 ex_project ex_C [] =
       Some (Inr (''import('' @ [CHR 0x27]
                   @ take (length (sf_fsPath ex_Enemy_ts) - 3) (sf_fsPath ex_Enemy_ts)
                   @ [CHR 0x27] @ '').'' @ ''Enemy''), [])"
    using gc scene_tsType_of_root_script [OF rc, of ex_project 0 "[]"] by blast
  from ra ga rc gc 1 2 p show ?thesis by simp
qed

text \<open>
  C5 as stated fails: the root of \<open>D.tscn\<close> has a declared type and a script that is
  not found by path. The scene-level \<open>tsType()\<close> returns the declared type and the
  sink stays empty.
\<close>

theorem scene_tsType_silent_fallback_counterexample:
  "rootNode ex_D = Some (GodotNode_new ex_D_root)
   \<and> getScript ex_project ex_D (GodotNode_new ex_D_root) = Inr None
   \<and> scene_tsType 0 ex_project ex_D [] = Some (Inr ''Node2D'', [])"
  by code_simp

subsection \<open>Instancing chains\<close>




text \<open>
  C7 (as amended). For every node that declares no script id of its own and is an
  instance of a scene with a root node: when that root declares a non-zero script id
  of its own, \<open>getScript()\<close> of the node equals \<open>getScript()\<close> of the root (when the id
  is missing from the instanced scene's resource table both raise, each error naming
  the scene of the node it was asked of); when that root declares none, \<open>getScript()\<close>
  of the node returns nothing: the root's own instance is not followed.
\<close>

theorem getScript_inherits_one_level:
  assumes "scriptExtResourceId n = None"
    and "node_instance project scene n = Inr (Some (InstScene inst))"
    and "rootNode inst = Some r"
  shows "(truthy_num (scriptExtResourceId r) \<longrightarrow>
            getScript project scene n =
              (case getScript project inst r of
                 Inl (ResourceNotFound i p) \<Rightarrow> Inl (ResourceNotFound i (scene_fsPath scene))
               | other \<Rightarrow> other))
       \<and> (\<not> truthy_num (scriptExtResourceId r) \<longrightarrow> getScript project scene n = Inr None)"
proof (intro conjI impI)
  assume t: "truthy_num (scriptExtResourceId r)"
  have l: "getScript project scene n = script_lookup project scene (scriptExtResourceId r) inst"
    using assms by (simp add: getScript_def)
  have r: "getScript project inst r = script_lookup project inst (scriptExtResourceId r) inst"
    using t by (simp add: getScript_def)
  show "getScript project scene n =
              (case getScript project inst r of
                 Inl (ResourceNotFound i p) \<Rightarrow> Inl (ResourceNotFound i (scene_fsPath scene))
               | other \<Rightarrow> other)"
    unfolding l r using t
    by (simp add: script_lookup_def split: option.splits asset.splits)
next
  assume "\<not> truthy_num (scriptExtResourceId r)"
  with assms show "getScript project scene n = Inr None"
    by (simp add: getScript_def script_lookup_def)
qed

text \<open>
  The root of \<open>B.tscn\<close> inherits the script of the root of \<open>C.tscn\<close>; the root of
  \<open>A.tscn\<close>, two levels above the script, has none.
\<close>

theorem getScript_inherits_one_level_witness:
  "getScript ex_project ex_B (GodotNode_new ex_B_root) = Inr (Some ex_Enemy_ts)
   \<and> getScript ex_project ex_C (GodotNode_new ex_C_root) = Inr (Some ex_Enemy_ts)
   \<and> getScript ex_project ex_A (GodotNode_new ex_A_root) = Inr None"
proof -
  have b1: "scriptExtResourceId (GodotNode_new ex_B_root) = None" by code_simp
  have b2: "node_instance ex_project ex_B (GodotNode_new ex_B_root) = Inr (Some (InstScene ex_C))"
    by code_simp
  have b3: "rootNode ex_C = Some (GodotNode_new ex_C_root)" by code_simp
  have b4: "truthy_num (scriptExtResourceId (GodotNode_new ex_C_root))" by code_simp
  have gc: "getScript ex_project ex_C (GodotNode_new ex_C_root) = Inr (Some ex_Enemy_ts)"
    by code_simp
  have a1: "scriptExtResourceId (GodotNode_new ex_A_root) = None" by code_simp
  have a2: "node_instance ex_project ex_A (GodotNode_new ex_A_root) = Inr (Some (InstScene ex_B))"
    by code_simp
  have a3: "rootNode ex_B = Some (GodotNode_new ex_B_root)" by code_simp
  have a4: "\<not> truthy_num (scriptExtResourceId (GodotNode_new ex_B_root))" by code_simp
  from getScript_inherits_one_level [OF b1 b2 b3] b4 gc
  have "getScript ex_project ex_B (GodotNode_new ex_B_root) = Inr (Some ex_Enemy_ts)"
    by simp
  moreover from getScript_inherits_one_level [OF a1 a2 a3] a4
  have "getScript ex_project ex_A (GodotNode_new ex_A_root) = Inr None"
    by blast
  ultimately show ?thesis using gc by simp
qed

text \<open>
  C7 as stated fails: the root of \<open>A.tscn\<close> instances \<open>B.tscn\<close> and declares no
  script; \<open>getScript()\<close> of the root of \<open>B.tscn\<close> is \<open>Enemy.ts\<close>, inherited from
  \<open>C.tscn\<close>, and \<open>getScript()\<close> of the root of \<open>A.tscn\<close> returns nothing.
\<close>

theorem getScript_two_levels_counterexample:
  "scriptExtResourceId (GodotNode_new ex_A_root) = None
   \<and> node_instance ex_project ex_A (GodotNode_new ex_A_root) = Inr (Some (InstScene ex_B))
   \<and> rootNode ex_B = Some (GodotNode_new ex_B_root)
   \<and> getScript ex_project ex_A (GodotNode_new ex_A_root) = Inr None
   \<and> getScript ex_project ex_B (GodotNode_new ex_B_root) = Inr (Some ex_Enemy_ts)"
  by code_simp

section \<open>Properties of the translation rule\<close>

text \<open>
  C10. For every source AST node handed to the rule for the self reference, every
  translation of child nodes and every \<open>ParseState\<close>, the text of the result is exactly
  \<open>self\<close>.
\<close>

theorem parseThisKeyword_self:
  "content (parseThisKeyword parseNode n props) = ''self''"
  by (simp add: parseThisKeyword_def combine_def)

end
